theory Spec2Isabelle
  imports Complex_Main "HOL-Library.Word"
begin

section \<open>JavaScript values\<close>

text \<open>
  A JavaScript string is a sequence of UTF-16 code units. The fixed texts of the program
  are ASCII; \<open>js\<close> turns an ASCII literal into its code units.
\<close>

type_synonym code_unit = "16 word"
type_synonym jsstring = "code_unit list"

definition js :: "string \<Rightarrow> jsstring" where
  "js s = map (\<lambda>c. word_of_nat (of_char c)) s"

text \<open>
  The values that \<^verbatim>\<open>JSON.parse\<close> produces and \<^verbatim>\<open>JSON.stringify\<close> prints. An object
  is the list of its own properties in insertion order; a parsed object has each key
  once. A number is carried by the rational that its literal denotes; the rounding to an
  IEEE double is not part of this model. A variable that may hold \<^verbatim>\<open>undefined\<close> has type
  \<open>json option\<close>, with \<open>None\<close> for \<^verbatim>\<open>undefined\<close>.
\<close>

datatype json =
    JNull
  | JBool bool
  | JNum rat
  | JStr jsstring
  | JArr "json list"
  | JObj "(jsstring \<times> json) list"

text \<open>\<^verbatim>\<open>ToBoolean\<close>: what \<^verbatim>\<open>!v\<close> and \<^verbatim>\<open>v || w\<close> test.\<close>

fun truthy :: "json \<Rightarrow> bool" where
  "truthy JNull = False"
| "truthy (JBool b) = b"
| "truthy (JNum q) = (q \<noteq> 0)"
| "truthy (JStr s) = (s \<noteq> [])"
| "truthy (JArr xs) = True"
| "truthy (JObj kvs) = True"

fun truthy_opt :: "json option \<Rightarrow> bool" where
  "truthy_opt None = False"
| "truthy_opt (Some v) = truthy v"

text \<open>
  Reading a property \<^verbatim>\<open>v.k\<close> of a value other than \<^verbatim>\<open>null\<close>. The names this program
  reads (\<^verbatim>\<open>message\<close>, \<^verbatim>\<open>model\<close>, \<^verbatim>\<open>response\<close>) are not built-in properties of strings,
  numbers, booleans or arrays, so there the result is \<^verbatim>\<open>undefined\<close>. Reading a property
  of \<^verbatim>\<open>null\<close> throws; every caller below tests for \<open>JNull\<close> first.
\<close>

fun get_field :: "json \<Rightarrow> jsstring \<Rightarrow> json option" where
  "get_field (JObj kvs) k = map_of kvs k"
| "get_field v k = None"

text \<open>
  \<^verbatim>\<open>a || d\<close> where \<open>a\<close> may be \<^verbatim>\<open>undefined\<close>: the left operand when it is truthy,
  else the right one.
\<close>

fun or_else :: "json option \<Rightarrow> json \<Rightarrow> json" where
  "or_else None d = d"
| "or_else (Some v) d = (if truthy v then v else d)"

text \<open>
  Whether \<^verbatim>\<open>ToString(v)\<close>, the conversion that a template literal applies to \<open>v\<close>,
  throws a \<^verbatim>\<open>TypeError\<close>. Primitive values convert. An object converts through its
  \<^verbatim>\<open>toString\<close> property: a parsed object that has a key of that name holds a value there
  that cannot be called, and \<^verbatim>\<open>valueOf\<close> does not give a primitive value either, so the
  conversion throws; without such a key \<^verbatim>\<open>Object.prototype.toString\<close> answers. An array
  converts through \<^verbatim>\<open>join\<close>, which converts every element other than \<^verbatim>\<open>null\<close>. The
  string itself only goes to the console and is not computed here.
\<close>

fun ToString_throws :: "json \<Rightarrow> bool" where
  "ToString_throws (JArr xs) = list_ex ToString_throws xs"
| "ToString_throws (JObj kvs) = (map_of kvs (js ''toString'') \<noteq> None)"
| "ToString_throws v = False"

text \<open>
  \<^verbatim>\<open>Number.prototype.toString\<close> on a non-negative integer below \<open>10\<^sup>2\<^sup>1\<close> (the clock
  readings and status codes of this program): its decimal digits.
\<close>

definition digit :: "nat \<Rightarrow> code_unit" where
  "digit d = word_of_nat (48 + d)"

fun toString :: "nat \<Rightarrow> jsstring" where
  "toString n = (if n < 10 then [digit n] else toString (n div 10) @ [digit (n mod 10)])"

declare toString.simps [simp del]

text \<open>
  \<^verbatim>\<open>String.prototype.trim\<close> removes the white space and line terminators of ECMAScript
  from both ends: TAB, LF, VT, FF, CR, SPACE, NBSP, the Unicode space separators and the
  byte order mark.
\<close>

definition is_ws :: "code_unit \<Rightarrow> bool" where
  "is_ws c =
     (c = 0x0009 \<or> c = 0x000A \<or> c = 0x000B \<or> c = 0x000C \<or> c = 0x000D \<or> c = 0x0020 \<or>
      c = 0x00A0 \<or> c = 0x1680 \<or> (0x2000 \<le> c \<and> c \<le> 0x200A) \<or> c = 0x2028 \<or>
      c = 0x2029 \<or> c = 0x202F \<or> c = 0x205F \<or> c = 0x3000 \<or> c = 0xFEFF)"

definition trim :: "jsstring \<Rightarrow> jsstring" where
  "trim s = rev (dropWhile is_ws (rev (dropWhile is_ws s)))"

text \<open>
  The exceptions that the two \<^verbatim>\<open>try\<close> blocks of the program can raise. A rejected
  \<^verbatim>\<open>fetch\<close> and a property read of \<^verbatim>\<open>null\<close> are \<^verbatim>\<open>TypeError\<close>s, a body that is not JSON
  is a \<^verbatim>\<open>SyntaxError\<close>, and \<open>Error m\<close> is \<^verbatim>\<open>new Error(m)\<close>.
\<close>

datatype js_error =
    TypeError
  | SyntaxError
  | Error jsstring

section \<open>HTTP\<close>

text \<open>
  The argument of a \<^verbatim>\<open>fetch\<close> call: the address and the \<^verbatim>\<open>init\<close> object, whose
  \<^verbatim>\<open>method\<close> is the field \<open>http_method\<close>. The body is the value handed to
  \<^verbatim>\<open>JSON.stringify\<close>.
\<close>

record fetch_request =
  url :: jsstring
  http_method :: jsstring
  headers :: "(jsstring \<times> jsstring) list"
  body :: json

text \<open>
  How a \<^verbatim>\<open>fetch\<close> settles: the promise rejects (\<open>NetworkError\<close>), or it resolves to a
  response with a status and a body. The body is \<open>None\<close> when it is not JSON text, so
  that \<^verbatim>\<open>response.json()\<close> rejects, and \<open>Some v\<close> when it parses to \<open>v\<close>.
\<close>

datatype fetch_result =
    NetworkError
  | Response nat "json option"

text \<open>\<^verbatim>\<open>response.ok\<close>: the status is in the range 200 to 299.\<close>

definition ok :: "nat \<Rightarrow> bool" where
  "ok st = (200 \<le> st \<and> st \<le> 299)"

text \<open>\<^verbatim>\<open>await response.json()\<close>.\<close>

definition json_of :: "json option \<Rightarrow> js_error + json" where
  "json_of b = (case b of None \<Rightarrow> Inl SyntaxError | Some v \<Rightarrow> Inr v)"

text \<open>\<^verbatim>\<open>data.k\<close>, which throws when \<open>data\<close> is \<^verbatim>\<open>null\<close>.\<close>

definition property :: "json \<Rightarrow> jsstring \<Rightarrow> js_error + json option" where
  "property data k = (if data = JNull then Inl TypeError else Inr (get_field data k))"

section \<open>The inference bridge (route.ts)\<close>

text \<open>What \<^verbatim>\<open>NextResponse.json(payload, {status})\<close> builds; the status defaults to 200.\<close>

record http_response =
  status :: nat
  payload :: json

definition default_model :: jsstring where
  "default_model = js ''llama3:latest''"

definition generate_url :: jsstring where
  "generate_url = js ''http://localhost:11434/api/generate''"

definition message_required :: http_response where
  "message_required =
     \<lparr>status = 400, payload = JObj [(js ''error'', JStr (js ''Message is required''))]\<rparr>"

definition failed_to_process :: http_response where
  "failed_to_process =
     \<lparr>status = 500,
      payload = JObj [(js ''error'', JStr (js
        ''Failed to process your request. Make sure Ollama is running and the model is available.''))]\<rparr>"

definition no_response_received :: jsstring where
  "no_response_received = js ''No response received from the model''"

text \<open>The request sent to the upstream server (route.ts, lines 14 to 29).\<close>

definition generate_request :: "json \<Rightarrow> json \<Rightarrow> fetch_request" where
  "generate_request model message =
     \<lparr>url = generate_url, http_method = js ''POST'',
      headers = [(js ''Content-Type'', js ''application/json'')],
      body = JObj
        [(js ''model'', model),
         (js ''prompt'', message),
         (js ''stream'', JBool False),
         (js ''options'', JObj
            [(js ''temperature'', JNum (7 / 10)),
             (js ''top_p'', JNum (9 / 10)),
             (js ''top_k'', JNum 40)])]\<rparr>"

text \<open>
  Lines 31 to 42: what the handler makes of the settled upstream \<^verbatim>\<open>fetch\<close>, inside the
  \<^verbatim>\<open>try\<close> block.
\<close>

definition upstream_reply :: "fetch_result \<Rightarrow> js_error + http_response" where
  "upstream_reply r =
     (case r of
        NetworkError \<Rightarrow> Inl TypeError
      | Response st reply \<Rightarrow>
          if \<not> ok st then Inl (Error (js ''Ollama API error: '' @ toString st))
          else (case json_of reply of
                  Inl e \<Rightarrow> Inl e
                | Inr data \<Rightarrow>
                    (case property data (js ''response'') of
                       Inl e \<Rightarrow> Inl e
                     | Inr response \<Rightarrow>
                         Inr \<lparr>status = 200,
                              payload = JObj
                                [(js ''response'',
                                  or_else response (JStr no_response_received))]\<rparr>)))"

text \<open>
  The \<^verbatim>\<open>try\<close> block of the handler \<^verbatim>\<open>POST\<close>. Its first argument is the upstream server:
  how the \<^verbatim>\<open>fetch\<close> of a request settles. Its second argument is the body of the inbound
  request, \<open>None\<close> when it is not JSON text. The result is the outcome of the block
  together with the list of requests that were sent upstream. Destructuring \<^verbatim>\<open>null\<close>
  throws; the default of \<^verbatim>\<open>model\<close> applies when the property is \<^verbatim>\<open>undefined\<close>. Of the two
  \<^verbatim>\<open>console.log\<close> calls of lines 11 and 12 the output is left out, but not the
  conversion of \<^verbatim>\<open>model\<close> and \<^verbatim>\<open>message\<close> to strings in their template literals, which
  can throw before the \<^verbatim>\<open>fetch\<close>.
\<close>

definition POST_try :: "(fetch_request \<Rightarrow> fetch_result) \<Rightarrow> json option \<Rightarrow> (js_error + http_response) \<times> fetch_request list" where
  "POST_try upstream request_body =
     (case json_of request_body of
        Inl e \<Rightarrow> (Inl e, [])
      | Inr b \<Rightarrow>
          if b = JNull then (Inl TypeError, [])
          else
            (case get_field b (js ''message'') of
               None \<Rightarrow> (Inr message_required, [])
             | Some message \<Rightarrow>
                 if \<not> truthy message then (Inr message_required, [])
                 else
                   let model = (case get_field b (js ''model'') of
                                  None \<Rightarrow> JStr default_model
                                | Some m \<Rightarrow> m)
                   in if ToString_throws model then (Inl TypeError, [])
                      else if ToString_throws message then (Inl TypeError, [])
                      else
                        let req = generate_request model message
                        in (upstream_reply (upstream req), [req])))"

text \<open>The handler: the \<^verbatim>\<open>catch\<close> block answers every exception with the same response.\<close>

definition POST :: "(fetch_request \<Rightarrow> fetch_result) \<Rightarrow> json option \<Rightarrow> http_response \<times> fetch_request list" where
  "POST upstream request_body =
     (case POST_try upstream request_body of
        (Inl e, sent) \<Rightarrow> (failed_to_process, sent)
      | (Inr r, sent) \<Rightarrow> (r, sent))"

text \<open>An upstream server that settles every request in the same way.\<close>

definition upstream_const :: "fetch_result \<Rightarrow> fetch_request \<Rightarrow> fetch_result" where
  "upstream_const r req = r"

text \<open>What the \<^verbatim>\<open>fetch\<close> of the client resolves to when the handler answers \<open>r\<close>.\<close>

definition bridge_reply :: "http_response \<Rightarrow> fetch_result" where
  "bridge_reply r = Response (status r) (Some (payload r))"

section \<open>The chat session manager (page.tsx)\<close>

datatype role = User | Assistant

text \<open>
  The interface \<^verbatim>\<open>Message\<close>. The content of an assistant message is whatever
  \<^verbatim>\<open>data.response\<close> holds, so its type is that of a JavaScript variable. The time stamp
  is a clock reading in milliseconds.
\<close>

record message =
  msg_id :: jsstring
  content :: "json option"
  role :: role
  timestamp :: nat

text \<open>The state variables of \<^verbatim>\<open>ChatInterface\<close> that the handlers below read or write.\<close>

record session =
  messages :: "message list"
  input :: jsstring
  isLoading :: bool
  isConnected :: bool
  selectedModel :: jsstring

definition initial :: session where
  "initial =
     \<lparr>messages = [], input = [], isLoading = False, isConnected = False,
      selectedModel = js ''llama3:latest''\<rparr>"

definition SUGGESTED_PROMPTS :: "jsstring list" where
  "SUGGESTED_PROMPTS =
     [js ''Review this code and suggest improvements for better performance and readability'',
      js ''Help me write comprehensive documentation for this project'',
      js ''I need help solving a complex technical problem. Can you guide me through it?'',
      js ''How can I optimize this system for better performance and scalability?'']"

definition fallback_text :: jsstring where
  "fallback_text =
     js ''Sorry, I encountered an error. Please make sure Ollama is running locally.''"

text \<open>Line 93: \<^verbatim>\<open>messageContent || input.trim()\<close>, with \<open>None\<close> for a call without argument.\<close>

definition sendMessage_content :: "jsstring option \<Rightarrow> session \<Rightarrow> jsstring" where
  "sendMessage_content messageContent s =
     (case messageContent of
        None \<Rightarrow> trim (input s)
      | Some m \<Rightarrow> if m \<noteq> [] then m else trim (input s))"

text \<open>The \<^verbatim>\<open>fetch\<close> of lines 108 to 117.\<close>

definition chat_request :: "jsstring \<Rightarrow> jsstring \<Rightarrow> fetch_request" where
  "chat_request text model =
     \<lparr>url = js ''/api/chat'', http_method = js ''POST'',
      headers = [(js ''Content-Type'', js ''application/json'')],
      body = JObj [(js ''message'', JStr text), (js ''model'', JStr model)]\<rparr>"

text \<open>
  \<^verbatim>\<open>sendMessage\<close> up to its \<^verbatim>\<open>await\<close> (lines 92 to 117). The two numbers are the clock
  readings of \<^verbatim>\<open>Date.now()\<close> and \<^verbatim>\<open>new Date()\<close>. The result is the new state and the
  request that was sent, if any.
\<close>

definition sendMessage_begin :: "nat \<Rightarrow> nat \<Rightarrow> jsstring option \<Rightarrow> session \<Rightarrow> session \<times> fetch_request option" where
  "sendMessage_begin now date messageContent s =
     (let content = sendMessage_content messageContent s
      in if content = [] \<or> isLoading s then (s, None)
         else
           let userMessage =
                 \<lparr>msg_id = toString now, content = Some (JStr content), role = User,
                  timestamp = date\<rparr>
           in (s\<lparr>messages := messages s @ [userMessage], input := [], isLoading := True\<rparr>,
               Some (chat_request content (selectedModel s))))"

text \<open>Lines 119 to 123 and the read of \<^verbatim>\<open>data.response\<close>: the rest of the \<^verbatim>\<open>try\<close> block.\<close>

definition chat_reply :: "fetch_result \<Rightarrow> js_error + json option" where
  "chat_reply r =
     (case r of
        NetworkError \<Rightarrow> Inl TypeError
      | Response st reply \<Rightarrow>
          if \<not> ok st then Inl (Error (js ''Failed to get response''))
          else (case json_of reply of
                  Inl e \<Rightarrow> Inl e
                | Inr data \<Rightarrow> property data (js ''response'')))"

text \<open>
  \<^verbatim>\<open>sendMessage\<close> from the settlement of its \<^verbatim>\<open>fetch\<close> on (lines 119 to 143): the state
  updates are functional, so they apply to the state at that moment.
\<close>

definition sendMessage_settle :: "nat \<Rightarrow> nat \<Rightarrow> fetch_result \<Rightarrow> session \<Rightarrow> session" where
  "sendMessage_settle now date r s =
     (let m = (case chat_reply r of
                 Inr response \<Rightarrow>
                   \<lparr>msg_id = toString (now + 1), content = response, role = Assistant,
                    timestamp = date\<rparr>
               | Inl e \<Rightarrow>
                   \<lparr>msg_id = toString (now + 1), content = Some (JStr fallback_text),
                    role = Assistant, timestamp = date\<rparr>)
      in s\<lparr>messages := messages s @ [m], isLoading := False\<rparr>)"

text \<open>\<^verbatim>\<open>handleSubmit\<close> calls \<^verbatim>\<open>sendMessage\<close> without argument.\<close>

definition handleSubmit :: "nat \<Rightarrow> nat \<Rightarrow> session \<Rightarrow> session \<times> fetch_request option" where
  "handleSubmit now date s = sendMessage_begin now date None s"

definition clearChat :: "session \<Rightarrow> session" where
  "clearChat s = s\<lparr>messages := []\<rparr>"

text \<open>\<^verbatim>\<open>checkOllamaConnection\<close>, from the settlement of its \<^verbatim>\<open>fetch\<close> on.\<close>

definition checkOllamaConnection :: "fetch_result \<Rightarrow> session \<Rightarrow> session" where
  "checkOllamaConnection r s =
     (case r of
        NetworkError \<Rightarrow> s\<lparr>isConnected := False\<rparr>
      | Response st reply \<Rightarrow> s\<lparr>isConnected := ok st\<rparr>)"

text \<open>
  When the component renders the button that calls \<^verbatim>\<open>clearChat\<close> (line 206) and the
  cards of the suggested prompts (line 223).
\<close>

definition clear_button_shown :: "session \<Rightarrow> bool" where
  "clear_button_shown s = (messages s \<noteq> [])"

definition prompts_shown :: "session \<Rightarrow> bool" where
  "prompts_shown s = (messages s = [])"

subsection \<open>The component as a state machine\<close>

text \<open>
  The handlers run one at a time, each on the state that the one before left. An event
  is a call of a handler or the settlement of the \<^verbatim>\<open>fetch\<close> that \<^verbatim>\<open>sendMessage\<close> awaits.
  The state of the machine is the session together with the chat requests in flight.
  \<open>ChatSettled\<close> settles the oldest of them; without a request in flight there is
  nothing to settle and the state stays.
\<close>

datatype event =
    SendMessage "jsstring option" nat nat
  | ChatSettled fetch_result nat nat
  | ClearChat
  | SetInput jsstring
  | SetSelectedModel jsstring
  | HealthSettled fetch_result

type_synonym app = "session \<times> fetch_request list"

fun step :: "app \<Rightarrow> event \<Rightarrow> app" where
  "step (s, pending) (SendMessage messageContent now date) =
     (case sendMessage_begin now date messageContent s of
        (s', None) \<Rightarrow> (s', pending)
      | (s', Some req) \<Rightarrow> (s', pending @ [req]))"
| "step (s, pending) (ChatSettled r now date) =
     (case pending of
        [] \<Rightarrow> (s, pending)
      | req # rest \<Rightarrow> (sendMessage_settle now date r s, rest))"
| "step (s, pending) ClearChat = (clearChat s, pending)"
| "step (s, pending) (SetInput v) = (s\<lparr>input := v\<rparr>, pending)"
| "step (s, pending) (SetSelectedModel v) = (s\<lparr>selectedModel := v\<rparr>, pending)"
| "step (s, pending) (HealthSettled r) = (checkOllamaConnection r s, pending)"

definition run :: "app \<Rightarrow> event list \<Rightarrow> app" where
  "run a evs = foldl step a evs"

text \<open>The events that neither settle a request nor clear the list.\<close>

fun quiet :: "event \<Rightarrow> bool" where
  "quiet (ChatSettled r now date) = False"
| "quiet ClearChat = False"
| "quiet e = True"

text \<open>At most one request is in flight, and exactly when the loading flag is set.\<close>

definition one_in_flight :: "app \<Rightarrow> bool" where
  "one_in_flight a = (isLoading (fst a) = (snd a \<noteq> []) \<and> length (snd a) \<le> 1)"

section \<open>Facts about strings\<close>

lemma of_char_lt: "(of_char c :: nat) < 256"
proof -
  have "(of_char c :: nat) mod 256 < 256" by simp
  then show ?thesis by (simp only: of_char_mod_256)
qed

lemma js_inject: "js a = js b \<longleftrightarrow> a = b"
proof -
  have "inj (\<lambda>c::char. (word_of_nat (of_char c) :: code_unit))"
  proof (rule injI)
    fix x y :: char
    assume "(word_of_nat (of_char x) :: code_unit) = word_of_nat (of_char y)"
    then have "take_bit 16 (of_char x :: nat) = take_bit 16 (of_char y :: nat)"
      by (simp add: word_of_nat_eq_iff)
    moreover have "(of_char x :: nat) < 2 ^ 16"
      by (rule less_trans [OF of_char_lt]) simp
    moreover have "(of_char y :: nat) < 2 ^ 16"
      by (rule less_trans [OF of_char_lt]) simp
    ultimately have "(of_char x :: nat) = of_char y"
      by (simp add: take_bit_nat_eq_self)
    then show "x = y" by simp
  qed
  then have "inj js"
    unfolding js_def [abs_def] by (simp only: inj_map)
  then show ?thesis by (simp add: inj_eq)
qed

lemma js_Nil: "js s = [] \<longleftrightarrow> s = []"
  by (simp add: js_def)


lemma all_dropWhile: "list_all P (dropWhile P xs) \<longleftrightarrow> list_all P xs"
  by (induction xs) auto

lemma trim_Nil_iff: "trim s = [] \<longleftrightarrow> list_all is_ws s"
proof -
  have "trim s = [] \<longleftrightarrow> list_all is_ws (dropWhile is_ws s)"
    by (simp add: trim_def list_all_iff)
  then show ?thesis by (simp only: all_dropWhile)
qed

section \<open>Properties of the bridge\<close>

lemma POST_not_accepted:
  assumes "b \<noteq> JNull"
    and "\<not> truthy_opt (get_field b (js ''message''))"
  shows "POST upstream (Some b) = (message_required, [])"
  using assms by (auto simp: POST_def POST_try_def json_of_def split: option.splits)

lemma POST_not_logged:
  assumes "b \<noteq> JNull" and "get_field b (js ''message'') = Some message" and "truthy message"
    and "ToString_throws (case get_field b (js ''model'') of
                            None \<Rightarrow> JStr default_model | Some m \<Rightarrow> m) \<or>
         ToString_throws message"
  shows "POST upstream (Some b) = (failed_to_process, [])"
  using assms by (auto simp: POST_def POST_try_def json_of_def Let_def)

lemma POST_accepted:
  assumes "b \<noteq> JNull" and "get_field b (js ''message'') = Some message" and "truthy message"
    and "\<not> ToString_throws message"
    and "\<not> ToString_throws (case get_field b (js ''model'') of
                              None \<Rightarrow> JStr default_model | Some m \<Rightarrow> m)"
  shows "POST upstream (Some b) =
     (case upstream_reply
             (upstream (generate_request
                (case get_field b (js ''model'') of None \<Rightarrow> JStr default_model | Some m \<Rightarrow> m)
                message)) of
        Inl e \<Rightarrow> failed_to_process
      | Inr r \<Rightarrow> r,
      [generate_request
         (case get_field b (js ''model'') of None \<Rightarrow> JStr default_model | Some m \<Rightarrow> m)
         message])"
  using assms by (simp add: POST_def POST_try_def json_of_def Let_def split: sum.splits)

lemma POST_sent_cases:
  assumes "snd (POST upstream request_body) = [req]"
  shows "fst (POST upstream request_body) =
           (case upstream_reply (upstream req) of Inl e \<Rightarrow> failed_to_process | Inr r \<Rightarrow> r)"
proof (cases request_body)
  case None
  with assms show ?thesis by (simp add: POST_def POST_try_def json_of_def)
next
  case (Some b)
  show ?thesis
  proof (cases "b \<noteq> JNull \<and> truthy_opt (get_field b (js ''message''))")
    case True
    then obtain message where m: "get_field b (js ''message'') = Some message" "truthy message"
      by (cases "get_field b (js ''message'')") auto
    from True have b: "b \<noteq> JNull" by simp
    show ?thesis
    proof (cases "ToString_throws (case get_field b (js ''model'') of
                                     None \<Rightarrow> JStr default_model | Some m \<Rightarrow> m) \<or>
                  ToString_throws message")
      case True
      from assms show ?thesis
        unfolding Some POST_not_logged [OF b m True] by simp
    next
      case False
      then have t: "\<not> ToString_throws message"
        and u: "\<not> ToString_throws (case get_field b (js ''model'') of
                                      None \<Rightarrow> JStr default_model | Some m \<Rightarrow> m)"
        by simp_all
      from assms show ?thesis
        unfolding Some POST_accepted [OF b m t u] by simp
    qed
  next
    case False
    with assms Some show ?thesis
      by (cases "b = JNull") (simp_all add: POST_not_accepted, simp add: POST_def POST_try_def json_of_def)
  qed
qed

lemma upstream_reply_not_ok:
  "\<not> ok st \<Longrightarrow> upstream_reply (Response st reply) = Inl (Error (js ''Ollama API error: '' @ toString st))"
  by (simp add: upstream_reply_def)

lemma upstream_reply_ok:
  "ok st \<Longrightarrow> data \<noteq> JNull \<Longrightarrow> upstream_reply (Response st (Some data)) =
     Inr \<lparr>status = 200, payload = JObj [(js ''response'', or_else (get_field data (js ''response'')) (JStr no_response_received))]\<rparr>"
  by (simp add: upstream_reply_def json_of_def property_def)

text \<open>
  C4, as stated, fails: a request whose body is \<^verbatim>\<open>null\<close>, or is not JSON text at all, has
  no message either, but line 5 throws on it inside the \<^verbatim>\<open>try\<close> block, and the answer is
  the 500 of the \<^verbatim>\<open>catch\<close> block, not 400.
\<close>

theorem bridge_null_body_counterexample:
  "POST (upstream_const NetworkError) (Some JNull) =
     (\<lparr>status = 500,
       payload = JObj [(js ''error'', JStr (js
         ''Failed to process your request. Make sure Ollama is running and the model is available.''))]\<rparr>,
      []) \<and>
   POST (upstream_const NetworkError) None =
     (\<lparr>status = 500,
       payload = JObj [(js ''error'', JStr (js
         ''Failed to process your request. Make sure Ollama is running and the model is available.''))]\<rparr>,
      []) \<and>
   status (fst (POST (upstream_const NetworkError) (Some JNull))) \<noteq> 400 \<and>
   status (fst (POST (upstream_const NetworkError) None)) \<noteq> 400"
  by (simp add: POST_def POST_try_def json_of_def failed_to_process_def)

text \<open>
  C4, amended. A request whose body parses to a value other than \<^verbatim>\<open>null\<close>, an object in
  particular, and has no \<^verbatim>\<open>message\<close> property, or the empty string for it, is answered
  with status 400 and the body \<^verbatim>\<open>{error: "Message is required"}\<close>, and nothing is sent
  upstream.
\<close>

theorem bridge_rejects_missing_message:
  assumes "b \<noteq> JNull"
    and "get_field b (js ''message'') = None \<or> get_field b (js ''message'') = Some (JStr [])"
  shows "POST upstream (Some b) =
           (\<lparr>status = 400, payload = JObj [(js ''error'', JStr (js ''Message is required''))]\<rparr>, [])"
proof -
  from assms(2) have "\<not> truthy_opt (get_field b (js ''message''))" by auto
  with assms(1) show ?thesis by (simp add: POST_not_accepted message_required_def)
qed

theorem bridge_rejects_missing_message_witness:
  "JObj [(js ''model'', JStr (js ''llama3:latest''))] \<noteq> JNull \<and>
   get_field (JObj [(js ''model'', JStr (js ''llama3:latest''))]) (js ''message'') = None \<and>
   POST (upstream_const (Response 200 (Some (JObj [(js ''response'', JStr (js ''hello''))]))))
     (Some (JObj [(js ''model'', JStr (js ''llama3:latest''))])) =
     (\<lparr>status = 400, payload = JObj [(js ''error'', JStr (js ''Message is required''))]\<rparr>, []) \<and>
   JObj [(js ''message'', JStr [])] \<noteq> JNull \<and>
   get_field (JObj [(js ''message'', JStr [])]) (js ''message'') = Some (JStr []) \<and>
   POST (upstream_const (Response 200 (Some (JObj [(js ''response'', JStr (js ''hello''))]))))
     (Some (JObj [(js ''message'', JStr [])])) =
     (\<lparr>status = 400, payload = JObj [(js ''error'', JStr (js ''Message is required''))]\<rparr>, [])"
  using bridge_rejects_missing_message
     [of "JObj [(js ''model'', JStr (js ''llama3:latest''))]"
         "upstream_const (Response 200 (Some (JObj [(js ''response'', JStr (js ''hello''))])))"]
    bridge_rejects_missing_message
     [of "JObj [(js ''message'', JStr [])]"
         "upstream_const (Response 200 (Some (JObj [(js ''response'', JStr (js ''hello''))])))"]
  by (simp add: js_inject)


text \<open>
  C8, as stated, fails: the request \<^verbatim>\<open>{message: {toString: 1}}\<close> passes the test of line 7,
  but the template literal of line 12 cannot convert that message to a string and
  throws, so the answer is the 500 of the \<^verbatim>\<open>catch\<close> block and nothing is sent upstream.
\<close>

theorem bridge_unprintable_message_counterexample:
  "get_field (JObj [(js ''message'', JObj [(js ''toString'', JNum 1)])]) (js ''message'') =
     Some (JObj [(js ''toString'', JNum 1)]) \<and>
   truthy (JObj [(js ''toString'', JNum 1)]) \<and>
   POST (upstream_const (Response 200 (Some (JObj [(js ''response'', JStr (js ''hello''))]))))
     (Some (JObj [(js ''message'', JObj [(js ''toString'', JNum 1)])])) =
     (\<lparr>status = 500,
       payload = JObj [(js ''error'', JStr (js
         ''Failed to process your request. Make sure Ollama is running and the model is available.''))]\<rparr>,
      [])"
proof -
  have b: "JObj [(js ''message'', JObj [(js ''toString'', JNum 1)])] \<noteq> JNull" by simp
  have m: "get_field (JObj [(js ''message'', JObj [(js ''toString'', JNum 1)])]) (js ''message'') =
     Some (JObj [(js ''toString'', JNum 1)])"
    by simp
  have t: "truthy (JObj [(js ''toString'', JNum 1)])" by simp
  have e: "ToString_throws (case get_field (JObj [(js ''message'', JObj [(js ''toString'', JNum 1)])])
                                   (js ''model'') of
                             None \<Rightarrow> JStr default_model | Some m \<Rightarrow> m) \<or>
           ToString_throws (JObj [(js ''toString'', JNum 1)])"
    by simp
  from POST_not_logged [OF b m t e] m t show ?thesis
    by (simp add: failed_to_process_def)
qed

text \<open>
  C8, amended. For every accepted request whose message and model convert to strings
  without an exception (every string, number, boolean and \<^verbatim>\<open>null\<close>, and every object
  that has no \<^verbatim>\<open>toString\<close> key), the one request sent upstream goes to the generation
  endpoint with the request's message as prompt, its model (the default when it has
  none), \<^verbatim>\<open>stream: false\<close>, temperature 0.7, \<^verbatim>\<open>top_p\<close> 0.9 and \<^verbatim>\<open>top_k\<close> 40.
\<close>

theorem bridge_forwards_fixed_parameters:
  assumes "b \<noteq> JNull"
    and "get_field b (js ''message'') = Some message"
    and "truthy message"
    and "\<not> ToString_throws message"
    and "\<not> ToString_throws (case get_field b (js ''model'') of
                              None \<Rightarrow> JStr default_model | Some m \<Rightarrow> m)"
  shows "snd (POST upstream (Some b)) =
     [\<lparr>url = js ''http://localhost:11434/api/generate'', http_method = js ''POST'',
       headers = [(js ''Content-Type'', js ''application/json'')],
       body = JObj
         [(js ''model'',
           (case get_field b (js ''model'') of
              None \<Rightarrow> JStr (js ''llama3:latest'')
            | Some m \<Rightarrow> m)),
          (js ''prompt'', message),
          (js ''stream'', JBool False),
          (js ''options'', JObj
             [(js ''temperature'', JNum (7 / 10)),
              (js ''top_p'', JNum (9 / 10)),
              (js ''top_k'', JNum 40)])]\<rparr>]"
  by (simp add: POST_accepted [OF assms] generate_request_def generate_url_def default_model_def
      split: option.splits)

theorem bridge_forwards_fixed_parameters_witness:
  "JObj [(js ''message'', JStr (js ''hi'')), (js ''model'', JStr (js ''mistral''))] \<noteq> JNull \<and>
   get_field (JObj [(js ''message'', JStr (js ''hi'')), (js ''model'', JStr (js ''mistral''))])
     (js ''message'') = Some (JStr (js ''hi'')) \<and>
   truthy (JStr (js ''hi'')) \<and>
   \<not> ToString_throws (JStr (js ''hi'')) \<and>
   \<not> ToString_throws
       (case get_field (JObj [(js ''message'', JStr (js ''hi'')), (js ''model'', JStr (js ''mistral''))])
               (js ''model'') of
          None \<Rightarrow> JStr default_model | Some m \<Rightarrow> m) \<and>
   snd (POST (upstream_const NetworkError)
          (Some (JObj [(js ''message'', JStr (js ''hi'')), (js ''model'', JStr (js ''mistral''))]))) =
     [\<lparr>url = js ''http://localhost:11434/api/generate'', http_method = js ''POST'',
       headers = [(js ''Content-Type'', js ''application/json'')],
       body = JObj
         [(js ''model'', JStr (js ''mistral'')),
          (js ''prompt'', JStr (js ''hi'')),
          (js ''stream'', JBool False),
          (js ''options'', JObj
             [(js ''temperature'', JNum (7 / 10)),
              (js ''top_p'', JNum (9 / 10)),
              (js ''top_k'', JNum 40)])]\<rparr>]"
  using bridge_forwards_fixed_parameters
     [of "JObj [(js ''message'', JStr (js ''hi'')), (js ''model'', JStr (js ''mistral''))]"
         "JStr (js ''hi'')" "upstream_const NetworkError"]
  by (simp add: js_inject js_Nil)

text \<open>
  C5, as stated, fails: the upstream reply \<^verbatim>\<open>{response: ""}\<close> has the field, yet the bridge
  answers with the placeholder and not with the empty text it received.
\<close>

theorem bridge_placeholder_counterexample:
  "get_field (JObj [(js ''response'', JStr [])]) (js ''response'') = Some (JStr []) \<and>
   POST (upstream_const (Response 200 (Some (JObj [(js ''response'', JStr [])]))))
     (Some (JObj [(js ''message'', JStr (js ''hi''))])) =
     (\<lparr>status = 200,
       payload = JObj [(js ''response'', JStr (js ''No response received from the model''))]\<rparr>,
      [generate_request (JStr (js ''llama3:latest'')) (JStr (js ''hi''))]) \<and>
   JStr (js ''No response received from the model'') \<noteq> JStr []"
proof -
  have b: "JObj [(js ''message'', JStr (js ''hi''))] \<noteq> JNull" by simp
  have m: "get_field (JObj [(js ''message'', JStr (js ''hi''))]) (js ''message'') = Some (JStr (js ''hi''))"
    by simp
  have t: "truthy (JStr (js ''hi''))" by (simp add: js_Nil)
  have p: "\<not> ToString_throws (JStr (js ''hi''))" by simp
  have q: "\<not> ToString_throws (case get_field (JObj [(js ''message'', JStr (js ''hi''))]) (js ''model'') of
                                None \<Rightarrow> JStr default_model | Some m \<Rightarrow> m)"
    by (simp add: js_inject)
  show ?thesis
    unfolding POST_accepted [OF b m t p q]
    by (simp add: upstream_const_def upstream_reply_ok ok_def js_inject js_Nil
        no_response_received_def default_model_def)
qed

text \<open>
  C5, amended. When the request was forwarded and the upstream reply has a success status
  and a JSON body other than \<^verbatim>\<open>null\<close>, the bridge answers 200 with the \<^verbatim>\<open>response\<close> field
  exactly as received if that field is truthy, a non-empty string in particular; it
  answers with the placeholder when the field is absent or falsy, the empty string
  included.
\<close>

theorem bridge_returns_generated_text:
  assumes "snd (POST upstream request_body) = [req]"
    and "upstream req = Response st (Some data)"
    and "ok st"
    and "data \<noteq> JNull"
  shows "fst (POST upstream request_body) =
     \<lparr>status = 200,
      payload = JObj
        [(js ''response'',
          (case get_field data (js ''response'') of
             None \<Rightarrow> JStr (js ''No response received from the model'')
           | Some v \<Rightarrow> if truthy v then v else JStr (js ''No response received from the model'')))]\<rparr>"
  by (simp add: POST_sent_cases [OF assms(1)] assms(2) upstream_reply_ok [OF assms(3,4)]
      no_response_received_def split: option.splits)

theorem bridge_returns_generated_text_witness:
  "snd (POST (upstream_const (Response 200 (Some (JObj [(js ''response'', JStr (js ''hello''))]))))
         (Some (JObj [(js ''message'', JStr (js ''hi'')), (js ''model'', JStr (js ''llama3:latest''))]))) =
     [generate_request (JStr (js ''llama3:latest'')) (JStr (js ''hi''))] \<and>
   upstream_const (Response 200 (Some (JObj [(js ''response'', JStr (js ''hello''))])))
     (generate_request (JStr (js ''llama3:latest'')) (JStr (js ''hi''))) =
     Response 200 (Some (JObj [(js ''response'', JStr (js ''hello''))])) \<and>
   ok 200 \<and>
   JObj [(js ''response'', JStr (js ''hello''))] \<noteq> JNull \<and>
   fst (POST (upstream_const (Response 200 (Some (JObj [(js ''response'', JStr (js ''hello''))]))))
         (Some (JObj [(js ''message'', JStr (js ''hi'')), (js ''model'', JStr (js ''llama3:latest''))]))) =
     \<lparr>status = 200, payload = JObj [(js ''response'', JStr (js ''hello''))]\<rparr>"
proof -
  have b: "JObj [(js ''message'', JStr (js ''hi'')), (js ''model'', JStr (js ''llama3:latest''))] \<noteq> JNull"
    by simp
  have m: "get_field (JObj [(js ''message'', JStr (js ''hi'')), (js ''model'', JStr (js ''llama3:latest''))])
             (js ''message'') = Some (JStr (js ''hi''))"
    by simp
  have t: "truthy (JStr (js ''hi''))" by (simp add: js_Nil)
  have p: "\<not> ToString_throws (JStr (js ''hi''))" by simp
  have q: "\<not> ToString_throws
               (case get_field (JObj [(js ''message'', JStr (js ''hi'')),
                                      (js ''model'', JStr (js ''llama3:latest''))]) (js ''model'') of
                  None \<Rightarrow> JStr default_model | Some m \<Rightarrow> m)"
    by (simp add: js_inject)
  have sent: "snd (POST (upstream_const (Response 200 (Some (JObj [(js ''response'', JStr (js ''hello''))]))))
         (Some (JObj [(js ''message'', JStr (js ''hi'')), (js ''model'', JStr (js ''llama3:latest''))]))) =
     [generate_request (JStr (js ''llama3:latest'')) (JStr (js ''hi''))]"
    unfolding POST_accepted [OF b m t p q] by (simp add: js_inject)
  have up: "upstream_const (Response 200 (Some (JObj [(js ''response'', JStr (js ''hello''))])))
     (generate_request (JStr (js ''llama3:latest'')) (JStr (js ''hi''))) =
     Response 200 (Some (JObj [(js ''response'', JStr (js ''hello''))]))"
    by (simp add: upstream_const_def)
  have k: "ok 200" by (simp add: ok_def)
  have d: "JObj [(js ''response'', JStr (js ''hello''))] \<noteq> JNull" by simp
  from bridge_returns_generated_text [OF sent up k d] sent up k d
  show ?thesis by (simp add: js_Nil)
qed


section \<open>Properties of the session manager\<close>

lemma content_None: "sendMessage_content None s = trim (input s)"
  by (simp add: sendMessage_content_def)

lemma begin_noop:
  "sendMessage_content messageContent s = [] \<or> isLoading s \<Longrightarrow>
   sendMessage_begin now date messageContent s = (s, None)"
  by (auto simp: sendMessage_begin_def)

lemma begin_sends:
  "sendMessage_content messageContent s \<noteq> [] \<Longrightarrow> \<not> isLoading s \<Longrightarrow>
   sendMessage_begin now date messageContent s =
     (s\<lparr>messages := messages s @
          [\<lparr>msg_id = toString now,
            content = Some (JStr (sendMessage_content messageContent s)),
            role = User, timestamp = date\<rparr>],
        input := [], isLoading := True\<rparr>,
      Some (chat_request (sendMessage_content messageContent s) (selectedModel s)))"
  by (simp add: sendMessage_begin_def Let_def)

lemma chat_reply_not_ok:
  "\<not> ok st \<Longrightarrow> chat_reply (Response st reply) = Inl (Error (js ''Failed to get response''))"
  by (simp add: chat_reply_def)

lemma settle_failure:
  "chat_reply r = Inl e \<Longrightarrow>
   sendMessage_settle now date r s =
     s\<lparr>messages := messages s @
          [\<lparr>msg_id = toString (now + 1), content = Some (JStr fallback_text),
            role = Assistant, timestamp = date\<rparr>],
        isLoading := False\<rparr>"
  by (simp add: sendMessage_settle_def)

lemma settle_appends_assistant:
  "sendMessage_settle now date r s =
     s\<lparr>messages := messages s @
          [\<lparr>msg_id = toString (now + 1),
            content = (case chat_reply r of Inl e \<Rightarrow> Some (JStr fallback_text) | Inr c \<Rightarrow> c),
            role = Assistant, timestamp = date\<rparr>],
        isLoading := False\<rparr>"
  by (simp add: sendMessage_settle_def split: sum.splits)

lemma run_Nil: "run a [] = a"
  by (simp add: run_def)

lemma run_Cons: "run a (e # evs) = run (step a e) evs"
  by (simp add: run_def)

lemma run_append: "run a (xs @ ys) = run (run a xs) ys"
  by (simp add: run_def)

lemma step_quiet_loading:
  assumes "quiet e" and "isLoading s"
  shows "\<exists>s'. step (s, pending) e = (s', pending) \<and> messages s' = messages s \<and> isLoading s'"
proof (cases e)
  case (SendMessage mc now date)
  with assms show ?thesis by (simp add: begin_noop)
next
  case (HealthSettled r)
  then show ?thesis using assms
    by (cases r) (simp_all add: checkOllamaConnection_def)
qed (use assms in simp_all)

lemma run_quiet_loading:
  assumes "list_all quiet evs" and "isLoading s"
  shows "\<exists>s'. run (s, pending) evs = (s', pending) \<and> messages s' = messages s \<and> isLoading s'"
  using assms
proof (induction evs arbitrary: s)
  case Nil
  then show ?case by (simp add: run_Nil)
next
  case (Cons e evs)
  from Cons.prems have q: "quiet e" and qs: "list_all quiet evs" by simp_all
  from step_quiet_loading [OF q Cons.prems(2)]
  obtain s1 where s1: "step (s, pending) e = (s1, pending)" "messages s1 = messages s" "isLoading s1"
    by blast
  from Cons.IH [OF qs s1(3)]
  obtain s' where "run (s1, pending) evs = (s', pending)" "messages s' = messages s1" "isLoading s'"
    by blast
  with s1 show ?case by (simp add: run_Cons)
qed

text \<open>
  C1. A submit with non-empty content, made while no request is pending and answered by
  the bridge with a success status, appends one user message and then one assistant
  message, in that order, and leaves the loading flag false and no request in flight.
  This holds whatever happens between the submit and the settlement, as long as the list
  is not cleared: further submits, edits of the input and changes of the model.
\<close>

theorem successful_exchange:
  assumes "\<not> isLoading s"
    and "sendMessage_content messageContent s \<noteq> []"
    and "ok st"
    and "list_all quiet evs"
  shows "messages (fst (run (s, [])
            (SendMessage messageContent now date # evs @ [ChatSettled (Response st reply) now' date']))) =
          messages s @
            [\<lparr>msg_id = toString now,
              content = Some (JStr (sendMessage_content messageContent s)),
              role = User, timestamp = date\<rparr>,
             \<lparr>msg_id = toString (now' + 1),
              content = (case chat_reply (Response st reply) of
                           Inl e \<Rightarrow> Some (JStr fallback_text)
                         | Inr c \<Rightarrow> c),
              role = Assistant, timestamp = date'\<rparr>] \<and>
         \<not> isLoading (fst (run (s, [])
            (SendMessage messageContent now date # evs @ [ChatSettled (Response st reply) now' date']))) \<and>
         snd (run (s, [])
            (SendMessage messageContent now date # evs @ [ChatSettled (Response st reply) now' date'])) = []"
proof -
  let ?u = "\<lparr>msg_id = toString now,
              content = Some (JStr (sendMessage_content messageContent s)),
              role = User, timestamp = date\<rparr>"
  let ?req = "chat_request (sendMessage_content messageContent s) (selectedModel s)"
  let ?s1 = "s\<lparr>messages := messages s @ [?u], input := [], isLoading := True\<rparr>"
  have first: "step (s, []) (SendMessage messageContent now date) = (?s1, [?req])"
    by (simp add: begin_sends [OF assms(2,1)])
  have "isLoading ?s1" by simp
  from run_quiet_loading [OF assms(4) this]
  obtain s2 where s2: "run (?s1, [?req]) evs = (s2, [?req])" "messages s2 = messages ?s1" "isLoading s2"
    by blast
  have "run (s, []) (SendMessage messageContent now date # evs @ [ChatSettled (Response st reply) now' date'])
        = run (?s1, [?req]) (evs @ [ChatSettled (Response st reply) now' date'])"
    by (simp only: run_Cons first)
  also have "\<dots> = step (s2, [?req]) (ChatSettled (Response st reply) now' date')"
    by (simp only: run_append s2(1) run_Cons run_Nil)
  also have "\<dots> = (sendMessage_settle now' date' (Response st reply) s2, [])"
    by simp
  finally show ?thesis
    by (simp add: settle_appends_assistant s2(2))
qed


theorem successful_exchange_witness:
  "\<not> isLoading (initial\<lparr>input := js '' hi ''\<rparr>) \<and>
   sendMessage_content None (initial\<lparr>input := js '' hi ''\<rparr>) \<noteq> [] \<and>
   ok 200 \<and>
   list_all quiet [SetInput (js ''more''), SendMessage None 1500 1501] \<and>
   messages (fst (run (initial\<lparr>input := js '' hi ''\<rparr>, [])
      (SendMessage None 1000 1001 # [SetInput (js ''more''), SendMessage None 1500 1501] @
       [ChatSettled (Response 200 (Some (JObj [(js ''response'', JStr (js ''hello''))]))) 2000 2002]))) =
     [\<lparr>msg_id = js ''1000'', content = Some (JStr (js ''hi'')), role = User, timestamp = 1001\<rparr>,
      \<lparr>msg_id = js ''2001'', content = Some (JStr (js ''hello'')), role = Assistant,
       timestamp = 2002\<rparr>]"
proof -
  have t: "trim (js '' hi '') = js ''hi''"
    by (simp add: trim_def js_def is_ws_def)
  have h1: "\<not> isLoading (initial\<lparr>input := js '' hi ''\<rparr>)"
    by (simp add: initial_def)
  have h2: "sendMessage_content None (initial\<lparr>input := js '' hi ''\<rparr>) \<noteq> []"
    by (simp add: content_None t js_Nil)
  have h3: "ok 200" by (simp add: ok_def)
  have h4: "list_all quiet [SetInput (js ''more''), SendMessage None 1500 1501]" by simp
  have i1: "toString 1000 = js ''1000''"
    by (simp add: toString.simps digit_def js_def)
  have i2: "toString (2000 + 1) = js ''2001''"
    by (simp add: toString.simps digit_def js_def)
  have c: "chat_reply (Response 200 (Some (JObj [(js ''response'', JStr (js ''hello''))]))) =
             Inr (Some (JStr (js ''hello'')))"
    by (simp add: chat_reply_def h3 json_of_def property_def)
  from successful_exchange [OF h1 h2 h3 h4, of 1000 1001
      "Some (JObj [(js ''response'', JStr (js ''hello''))])" 2000 2002]
  have "messages (fst (run (initial\<lparr>input := js '' hi ''\<rparr>, [])
      (SendMessage None 1000 1001 # [SetInput (js ''more''), SendMessage None 1500 1501] @
       [ChatSettled (Response 200 (Some (JObj [(js ''response'', JStr (js ''hello''))]))) 2000 2002]))) =
     [\<lparr>msg_id = js ''1000'', content = Some (JStr (js ''hi'')), role = User, timestamp = 1001\<rparr>,
      \<lparr>msg_id = js ''2001'', content = Some (JStr (js ''hello'')), role = Assistant,
       timestamp = 2002\<rparr>]"
    by (simp only: c i1 i2 content_None sum.case) (simp add: initial_def t)
  with h1 h2 h3 h4 show ?thesis by (simp only: simp_thms)
qed

lemma js_not_blank: "\<not> is_ws (word_of_nat (of_char c)) \<Longrightarrow> \<not> list_all is_ws (js (c # cs))"
  by (simp add: js_def)

lemma suggested_prompts_not_blank: "list_all (\<lambda>p. \<not> list_all is_ws p) SUGGESTED_PROMPTS"
  unfolding SUGGESTED_PROMPTS_def list.pred_inject
  by (intro conjI TrueI js_not_blank) (simp_all add: is_ws_def)

text \<open>
  C2. When the input field is empty or holds only white space, submitting the form does
  nothing: the state is unchanged, so no message is appended, and no request is sent.
\<close>

theorem blank_submit_is_noop:
  assumes "list_all is_ws (input s)"
  shows "handleSubmit now date s = (s, None) \<and>
         step (s, pending) (SendMessage None now date) = (s, pending)"
proof -
  from assms have "sendMessage_content None s = []"
    by (simp add: content_None trim_Nil_iff)
  then have "sendMessage_begin now date None s = (s, None)"
    by (simp add: begin_noop)
  then show ?thesis by (simp add: handleSubmit_def)
qed

theorem blank_submit_is_noop_witness:
  "list_all is_ws (input (initial\<lparr>input := [0x0020, 0x0009, 0x00A0, 0x000A]\<rparr>)) \<and>
   handleSubmit 1000 1001 (initial\<lparr>input := [0x0020, 0x0009, 0x00A0, 0x000A]\<rparr>) =
     (initial\<lparr>input := [0x0020, 0x0009, 0x00A0, 0x000A]\<rparr>, None) \<and>
   step (initial\<lparr>input := [0x0020, 0x0009, 0x00A0, 0x000A]\<rparr>, []) (SendMessage None 1000 1001) =
     (initial\<lparr>input := [0x0020, 0x0009, 0x00A0, 0x000A]\<rparr>, [])"
proof -
  have h: "list_all is_ws (input (initial\<lparr>input := [0x0020, 0x0009, 0x00A0, 0x000A]\<rparr>))"
    by (simp add: is_ws_def)
  from blank_submit_is_noop [OF h, of 1000 1001 "[]"] h show ?thesis
    by (simp only: simp_thms)
qed

lemma step_one_in_flight: "one_in_flight a \<Longrightarrow> one_in_flight (step a e)"
proof (cases a)
  case (Pair s pending)
  assume inv: "one_in_flight a"
  show ?thesis
  proof (cases e)
    case (SendMessage mc now date)
    show ?thesis
    proof (cases "sendMessage_content mc s = [] \<or> isLoading s")
      case True
      with inv Pair SendMessage show ?thesis by (simp add: begin_noop)
    next
      case False
      then have c: "sendMessage_content mc s \<noteq> []" and l: "\<not> isLoading s" by simp_all
      from inv Pair l have "pending = []" by (simp add: one_in_flight_def)
      with Pair SendMessage show ?thesis
        by (simp add: one_in_flight_def begin_sends [OF c l])
    qed
  next
    case (ChatSettled r now date)
    with inv Pair show ?thesis
      by (cases pending) (simp_all add: one_in_flight_def settle_appends_assistant)
  next
    case ClearChat
    with inv Pair show ?thesis by (simp add: one_in_flight_def clearChat_def)
  next
    case (SetInput v)
    with inv Pair show ?thesis by (simp add: one_in_flight_def)
  next
    case (SetSelectedModel v)
    with inv Pair show ?thesis by (simp add: one_in_flight_def)
  next
    case (HealthSettled r)
    with inv Pair show ?thesis
      by (cases r) (simp_all add: one_in_flight_def checkOllamaConnection_def)
  qed
qed

lemma run_one_in_flight: "one_in_flight a \<Longrightarrow> one_in_flight (run a evs)"
  by (induction evs arbitrary: a) (simp_all add: run_Nil run_Cons step_one_in_flight)

lemma initial_one_in_flight: "one_in_flight (initial, [])"
  by (simp add: one_in_flight_def initial_def)

text \<open>
  C3. While the loading flag is set, a call of \<^verbatim>\<open>sendMessage\<close> with any argument changes
  nothing and sends nothing; and from the initial state, whatever the events, at most one
  request is in flight.
\<close>

theorem loading_blocks_submit:
  "(isLoading s \<longrightarrow>
      sendMessage_begin now date messageContent s = (s, None) \<and>
      step (s, pending) (SendMessage messageContent now date) = (s, pending)) \<and>
   length (snd (run (initial, []) evs)) \<le> 1"
proof -
  have "one_in_flight (run (initial, []) evs)"
    by (rule run_one_in_flight [OF initial_one_in_flight])
  then show ?thesis
    by (simp add: begin_noop one_in_flight_def)
qed

theorem loading_blocks_submit_witness:
  "isLoading (initial\<lparr>isLoading := True\<rparr>) \<and>
   sendMessage_begin 1000 1001 (Some (js ''hi'')) (initial\<lparr>isLoading := True\<rparr>) =
     (initial\<lparr>isLoading := True\<rparr>, None) \<and>
   step (initial\<lparr>isLoading := True\<rparr>, [chat_request (js ''first'') (js ''llama3:latest'')])
     (SendMessage (Some (js ''hi'')) 1000 1001) =
     (initial\<lparr>isLoading := True\<rparr>, [chat_request (js ''first'') (js ''llama3:latest'')]) \<and>
   length (snd (run (initial, [])
     [SendMessage (Some (js ''first'')) 1000 1001, SendMessage (Some (js ''hi'')) 1002 1003])) \<le> 1"
proof -
  have h: "isLoading (initial\<lparr>isLoading := True\<rparr>)" by simp
  from loading_blocks_submit [of "initial\<lparr>isLoading := True\<rparr>" 1000 1001 "Some (js ''hi'')"
      "[chat_request (js ''first'') (js ''llama3:latest'')]"
      "[SendMessage (Some (js ''first'')) 1000 1001, SendMessage (Some (js ''hi'')) 1002 1003]"] h
  show ?thesis by (simp only: simp_thms)
qed


text \<open>
  C6. When the upstream reply has a non-success status, the bridge answers 500 with its
  fixed error body, whatever the upstream sent. The session manager turns every
  non-success response, that one included, into one assistant message with the fixed
  fallback text, and clears the loading flag.
\<close>

theorem upstream_failure_is_uniform:
  assumes "snd (POST upstream request_body) = [req]"
    and "upstream req = Response st reply"
    and "\<not> ok st"
    and "\<not> ok st'"
  shows "fst (POST upstream request_body) =
           \<lparr>status = 500,
            payload = JObj [(js ''error'', JStr (js
              ''Failed to process your request. Make sure Ollama is running and the model is available.''))]\<rparr> \<and>
         sendMessage_settle now date (Response st' reply') s =
           s\<lparr>messages := messages s @
                [\<lparr>msg_id = toString (now + 1),
                  content = Some (JStr (js
                    ''Sorry, I encountered an error. Please make sure Ollama is running locally.'')),
                  role = Assistant, timestamp = date\<rparr>],
              isLoading := False\<rparr> \<and>
         sendMessage_settle now date (bridge_reply (fst (POST upstream request_body))) s =
           sendMessage_settle now date (Response st' reply') s"
proof -
  have bridge: "fst (POST upstream request_body) = failed_to_process"
    by (simp add: POST_sent_cases [OF assms(1)] assms(2) upstream_reply_not_ok [OF assms(3)])
  have client: "sendMessage_settle now date (Response st' reply') s =
           s\<lparr>messages := messages s @
                [\<lparr>msg_id = toString (now + 1), content = Some (JStr fallback_text),
                  role = Assistant, timestamp = date\<rparr>],
              isLoading := False\<rparr>"
    by (rule settle_failure [OF chat_reply_not_ok [OF assms(4)]])
  have "\<not> ok (status failed_to_process)"
    by (simp add: failed_to_process_def ok_def)
  then have "sendMessage_settle now date (bridge_reply failed_to_process) s =
           s\<lparr>messages := messages s @
                [\<lparr>msg_id = toString (now + 1), content = Some (JStr fallback_text),
                  role = Assistant, timestamp = date\<rparr>],
              isLoading := False\<rparr>"
    unfolding bridge_reply_def by (rule settle_failure [OF chat_reply_not_ok])
  with bridge client show ?thesis
    by (simp add: failed_to_process_def fallback_text_def)
qed

theorem upstream_failure_is_uniform_witness:
  "snd (POST (upstream_const (Response 404 (Some (JObj [(js ''error'', JStr (js ''model not found''))]))))
         (Some (JObj [(js ''message'', JStr (js ''hi''))]))) =
     [generate_request (JStr (js ''llama3:latest'')) (JStr (js ''hi''))] \<and>
   upstream_const (Response 404 (Some (JObj [(js ''error'', JStr (js ''model not found''))])))
     (generate_request (JStr (js ''llama3:latest'')) (JStr (js ''hi''))) =
     Response 404 (Some (JObj [(js ''error'', JStr (js ''model not found''))])) \<and>
   \<not> ok 404 \<and> \<not> ok 500 \<and>
   fst (POST (upstream_const (Response 404 (Some (JObj [(js ''error'', JStr (js ''model not found''))]))))
         (Some (JObj [(js ''message'', JStr (js ''hi''))]))) =
     \<lparr>status = 500,
      payload = JObj [(js ''error'', JStr (js
        ''Failed to process your request. Make sure Ollama is running and the model is available.''))]\<rparr> \<and>
   messages (sendMessage_settle 2000 2002
       (bridge_reply (fst (POST
          (upstream_const (Response 404 (Some (JObj [(js ''error'', JStr (js ''model not found''))]))))
          (Some (JObj [(js ''message'', JStr (js ''hi''))])))))
       (initial\<lparr>isLoading := True\<rparr>)) =
     [\<lparr>msg_id = toString (2000 + 1),
       content = Some (JStr (js
         ''Sorry, I encountered an error. Please make sure Ollama is running locally.'')),
       role = Assistant, timestamp = 2002\<rparr>]"
proof -
  have b: "JObj [(js ''message'', JStr (js ''hi''))] \<noteq> JNull" by simp
  have m: "get_field (JObj [(js ''message'', JStr (js ''hi''))]) (js ''message'') = Some (JStr (js ''hi''))"
    by simp
  have t: "truthy (JStr (js ''hi''))" by (simp add: js_Nil)
  have p: "\<not> ToString_throws (JStr (js ''hi''))" by simp
  have q: "\<not> ToString_throws (case get_field (JObj [(js ''message'', JStr (js ''hi''))]) (js ''model'') of
                                None \<Rightarrow> JStr default_model | Some m \<Rightarrow> m)"
    by (simp add: js_inject)
  have sent: "snd (POST (upstream_const (Response 404 (Some (JObj [(js ''error'', JStr (js ''model not found''))]))))
         (Some (JObj [(js ''message'', JStr (js ''hi''))]))) =
     [generate_request (JStr (js ''llama3:latest'')) (JStr (js ''hi''))]"
    unfolding POST_accepted [OF b m t p q] by (simp add: js_inject default_model_def)
  have up: "upstream_const (Response 404 (Some (JObj [(js ''error'', JStr (js ''model not found''))])))
     (generate_request (JStr (js ''llama3:latest'')) (JStr (js ''hi''))) =
     Response 404 (Some (JObj [(js ''error'', JStr (js ''model not found''))]))"
    by (simp add: upstream_const_def)
  have k1: "\<not> ok 404" by (simp add: ok_def)
  have k2: "\<not> ok 500" by (simp add: ok_def)
  note u = upstream_failure_is_uniform [OF sent up k1 k2, of 2000 2002 None "initial\<lparr>isLoading := True\<rparr>"]
  from u have u1: "fst (POST (upstream_const (Response 404 (Some (JObj [(js ''error'', JStr (js ''model not found''))]))))
         (Some (JObj [(js ''message'', JStr (js ''hi''))]))) =
     \<lparr>status = 500,
      payload = JObj [(js ''error'', JStr (js
        ''Failed to process your request. Make sure Ollama is running and the model is available.''))]\<rparr>"
    by (rule conjunct1)
  have "messages (sendMessage_settle 2000 2002
       (bridge_reply (fst (POST
          (upstream_const (Response 404 (Some (JObj [(js ''error'', JStr (js ''model not found''))]))))
          (Some (JObj [(js ''message'', JStr (js ''hi''))])))))
       (initial\<lparr>isLoading := True\<rparr>)) =
     messages (initial\<lparr>isLoading := True\<rparr>) @
     [\<lparr>msg_id = toString (2000 + 1),
       content = Some (JStr (js
         ''Sorry, I encountered an error. Please make sure Ollama is running locally.'')),
       role = Assistant, timestamp = 2002\<rparr>]"
    unfolding u [THEN conjunct2, THEN conjunct2] u [THEN conjunct2, THEN conjunct1]
    by simp
  then have u2: "messages (sendMessage_settle 2000 2002
       (bridge_reply (fst (POST
          (upstream_const (Response 404 (Some (JObj [(js ''error'', JStr (js ''model not found''))]))))
          (Some (JObj [(js ''message'', JStr (js ''hi''))])))))
       (initial\<lparr>isLoading := True\<rparr>)) =
     [\<lparr>msg_id = toString (2000 + 1),
       content = Some (JStr (js
         ''Sorry, I encountered an error. Please make sure Ollama is running locally.'')),
       role = Assistant, timestamp = 2002\<rparr>]"
    by (simp add: initial_def)
  from sent up k1 k2 u1 u2 show ?thesis by (simp only: simp_thms)
qed

text \<open>
  C7. \<^verbatim>\<open>clearChat\<close> empties the message list, whatever it held, and changes no other
  field. A submit after it, with non-empty content and no request pending, starts an
  exchange as usual: the list holds the new user message alone and the request is sent.
\<close>

theorem clearChat_frame:
  "messages (clearChat s) = [] \<and>
   input (clearChat s) = input s \<and>
   isLoading (clearChat s) = isLoading s \<and>
   isConnected (clearChat s) = isConnected s \<and>
   selectedModel (clearChat s) = selectedModel s \<and>
   (sendMessage_content messageContent s \<noteq> [] \<and> \<not> isLoading s \<longrightarrow>
      sendMessage_begin now date messageContent (clearChat s) =
        (\<lparr>messages =
            [\<lparr>msg_id = toString now,
              content = Some (JStr (sendMessage_content messageContent s)),
              role = User, timestamp = date\<rparr>],
          input = [], isLoading = True, isConnected = isConnected s,
          selectedModel = selectedModel s\<rparr>,
         Some (chat_request (sendMessage_content messageContent s) (selectedModel s))))"
proof -
  have c: "sendMessage_content messageContent (clearChat s) = sendMessage_content messageContent s"
    by (simp add: sendMessage_content_def clearChat_def split: option.splits)
  have sub: "sendMessage_begin now date messageContent (clearChat s) =
        (\<lparr>messages =
            [\<lparr>msg_id = toString now,
              content = Some (JStr (sendMessage_content messageContent s)),
              role = User, timestamp = date\<rparr>],
          input = [], isLoading = True, isConnected = isConnected s,
          selectedModel = selectedModel s\<rparr>,
         Some (chat_request (sendMessage_content messageContent s) (selectedModel s)))"
    if "sendMessage_content messageContent s \<noteq> []" and "\<not> isLoading s"
  proof -
    from that(1) have n: "sendMessage_content messageContent (clearChat s) \<noteq> []"
      by (simp add: c)
    from that(2) have l: "\<not> isLoading (clearChat s)"
      by (simp add: clearChat_def)
    from begin_sends [OF n l, unfolded c] show ?thesis
      by (simp add: clearChat_def)
  qed
  have frame: "messages (clearChat s) = [] \<and> input (clearChat s) = input s \<and>
      isLoading (clearChat s) = isLoading s \<and> isConnected (clearChat s) = isConnected s \<and>
      selectedModel (clearChat s) = selectedModel s"
    by (simp add: clearChat_def)
  from frame sub show ?thesis by blast
qed

theorem clearChat_frame_witness:
  "sendMessage_content (Some (js ''again''))
     (initial\<lparr>messages :=
        [\<lparr>msg_id = js ''1000'', content = Some (JStr (js ''hi'')), role = User, timestamp = 1001\<rparr>,
         \<lparr>msg_id = js ''2001'', content = Some (JStr (js ''hello'')), role = Assistant,
          timestamp = 2002\<rparr>]\<rparr>) \<noteq> [] \<and>
   \<not> isLoading
     (initial\<lparr>messages :=
        [\<lparr>msg_id = js ''1000'', content = Some (JStr (js ''hi'')), role = User, timestamp = 1001\<rparr>,
         \<lparr>msg_id = js ''2001'', content = Some (JStr (js ''hello'')), role = Assistant,
          timestamp = 2002\<rparr>]\<rparr>) \<and>
   messages (fst (sendMessage_begin 3000 3001 (Some (js ''again''))
     (clearChat (initial\<lparr>messages :=
        [\<lparr>msg_id = js ''1000'', content = Some (JStr (js ''hi'')), role = User, timestamp = 1001\<rparr>,
         \<lparr>msg_id = js ''2001'', content = Some (JStr (js ''hello'')), role = Assistant,
          timestamp = 2002\<rparr>]\<rparr>)))) =
     [\<lparr>msg_id = toString 3000, content = Some (JStr (js ''again'')), role = User,
       timestamp = 3001\<rparr>]"
proof -
  let ?s = "initial\<lparr>messages :=
        [\<lparr>msg_id = js ''1000'', content = Some (JStr (js ''hi'')), role = User, timestamp = 1001\<rparr>,
         \<lparr>msg_id = js ''2001'', content = Some (JStr (js ''hello'')), role = Assistant,
          timestamp = 2002\<rparr>]\<rparr>"
  have c: "sendMessage_content (Some (js ''again'')) ?s = js ''again''"
    by (simp add: sendMessage_content_def js_Nil)
  have h1: "sendMessage_content (Some (js ''again'')) ?s \<noteq> []"
    by (simp add: c js_Nil)
  have h2: "\<not> isLoading ?s" by (simp add: initial_def)
  from clearChat_frame [of ?s "Some (js ''again'')" 3000 3001] h1 h2
  show ?thesis by (simp add: c)
qed

text \<open>
  C9. An explicit argument is not trimmed: with the argument \<^verbatim>\<open>" "\<close>, which is white
  space only, \<^verbatim>\<open>sendMessage\<close> appends a user message with that content and sends the
  request, while the same text in the input field is rejected.
\<close>

theorem explicit_argument_not_trimmed:
  "list_all is_ws (js '' '') \<and>
   trim (js '' '') = [] \<and>
   sendMessage_begin now date (Some (js '' '')) initial =
     (initial\<lparr>messages :=
          [\<lparr>msg_id = toString now, content = Some (JStr (js '' '')), role = User,
            timestamp = date\<rparr>],
        input := [], isLoading := True\<rparr>,
      Some \<lparr>url = js ''/api/chat'', http_method = js ''POST'',
            headers = [(js ''Content-Type'', js ''application/json'')],
            body = JObj [(js ''message'', JStr (js '' '')),
                         (js ''model'', JStr (js ''llama3:latest''))]\<rparr>) \<and>
   sendMessage_begin now date None (initial\<lparr>input := js '' ''\<rparr>) =
     (initial\<lparr>input := js '' ''\<rparr>, None)"
proof -
  have w: "list_all is_ws (js '' '')"
    by (simp add: js_def is_ws_def)
  then have t: "trim (js '' '') = []"
    by (simp only: trim_Nil_iff)
  have c: "sendMessage_content (Some (js '' '')) initial = js '' ''"
    by (simp add: sendMessage_content_def js_Nil)
  have n: "sendMessage_content (Some (js '' '')) initial \<noteq> []"
    by (simp add: c js_Nil)
  have l: "\<not> isLoading initial" by (simp add: initial_def)
  have "sendMessage_content None (initial\<lparr>input := js '' ''\<rparr>) = []"
    by (simp add: content_None t)
  then have "sendMessage_begin now date None (initial\<lparr>input := js '' ''\<rparr>) =
     (initial\<lparr>input := js '' ''\<rparr>, None)"
    by (simp add: begin_noop)
  moreover have "selectedModel initial = js ''llama3:latest''" and "messages initial = []"
    by (simp_all add: initial_def)
  ultimately show ?thesis
    using w t by (simp add: begin_sends [OF n l] c chat_request_def)
qed

text \<open>
  C10. Clearing the list while a request is pending does not cancel it: whatever the
  state and the outcome, the settlement appends its assistant message to the emptied
  list. From the initial state, a click on the first suggested prompt, then on the clear
  button (which is shown by then), then the settlement, leave a list that consists of
  one assistant message, with the reply or with the fallback text.
\<close>

theorem clear_during_request:
  "messages (sendMessage_settle now date r (clearChat s)) =
     [\<lparr>msg_id = toString (now + 1),
       content = (case chat_reply r of Inl e \<Rightarrow> Some (JStr fallback_text) | Inr c \<Rightarrow> c),
       role = Assistant, timestamp = date\<rparr>] \<and>
   prompts_shown initial \<and>
   clear_button_shown (fst (run (initial, []) [SendMessage (Some (SUGGESTED_PROMPTS ! 0)) 1000 1001])) \<and>
   run (initial, [])
     [SendMessage (Some (SUGGESTED_PROMPTS ! 0)) 1000 1001,
      ClearChat,
      ChatSettled (Response 200 (Some (JObj [(js ''response'', JStr (js ''hello''))]))) 2000 2002] =
     (initial\<lparr>messages :=
        [\<lparr>msg_id = js ''2001'', content = Some (JStr (js ''hello'')), role = Assistant,
          timestamp = 2002\<rparr>]\<rparr>, []) \<and>
   run (initial, [])
     [SendMessage (Some (SUGGESTED_PROMPTS ! 0)) 1000 1001,
      ClearChat,
      ChatSettled NetworkError 2000 2002] =
     (initial\<lparr>messages :=
        [\<lparr>msg_id = js ''2001'',
          content = Some (JStr (js
            ''Sorry, I encountered an error. Please make sure Ollama is running locally.'')),
          role = Assistant, timestamp = 2002\<rparr>]\<rparr>, [])"
proof -
  let ?p = "js ''Review this code and suggest improvements for better performance and readability''"
  have p: "SUGGESTED_PROMPTS ! 0 = ?p"
    by (simp add: SUGGESTED_PROMPTS_def)
  have c: "sendMessage_content (Some ?p) initial = ?p"
    by (simp add: sendMessage_content_def js_Nil)
  have n: "sendMessage_content (Some ?p) initial \<noteq> []"
    by (simp add: c js_Nil)
  have l: "\<not> isLoading initial" by (simp add: initial_def)
  have mi: "messages initial = []" by (simp add: initial_def)
  have i2: "toString 2001 = js ''2001''"
    by (simp add: toString.simps digit_def js_def)
  have k: "ok 200" by (simp add: ok_def)
  have r1: "chat_reply (Response 200 (Some (JObj [(js ''response'', JStr (js ''hello''))]))) =
             Inr (Some (JStr (js ''hello'')))"
    by (simp add: chat_reply_def k json_of_def property_def)
  have r2: "chat_reply NetworkError = Inl TypeError"
    by (simp add: chat_reply_def)
  have first: "step (initial, []) (SendMessage (Some (SUGGESTED_PROMPTS ! 0)) 1000 1001) =
      (initial\<lparr>messages := [\<lparr>msg_id = toString 1000, content = Some (JStr ?p), role = User,
            timestamp = 1001\<rparr>], input := [], isLoading := True\<rparr>,
       [chat_request ?p (selectedModel initial)])"
    unfolding p by (simp add: begin_sends [OF n l] c mi)
  have g: "messages (sendMessage_settle now date r (clearChat s)) =
     [\<lparr>msg_id = toString (now + 1),
       content = (case chat_reply r of Inl e \<Rightarrow> Some (JStr fallback_text) | Inr c \<Rightarrow> c),
       role = Assistant, timestamp = date\<rparr>]"
    by (simp add: settle_appends_assistant clearChat_def)
  have a: "prompts_shown initial"
    by (simp add: prompts_shown_def initial_def)
  have b: "clear_button_shown (fst (run (initial, []) [SendMessage (Some (SUGGESTED_PROMPTS ! 0)) 1000 1001]))"
    by (simp only: run_Cons run_Nil first) (simp add: clear_button_shown_def)
  have e1: "run (initial, [])
     [SendMessage (Some (SUGGESTED_PROMPTS ! 0)) 1000 1001,
      ClearChat,
      ChatSettled (Response 200 (Some (JObj [(js ''response'', JStr (js ''hello''))]))) 2000 2002] =
     (initial\<lparr>messages :=
        [\<lparr>msg_id = js ''2001'', content = Some (JStr (js ''hello'')), role = Assistant,
          timestamp = 2002\<rparr>]\<rparr>, [])"
    by (simp only: run_Cons run_Nil first)
       (simp add: settle_appends_assistant clearChat_def r1 i2 initial_def)
  have e2: "run (initial, [])
     [SendMessage (Some (SUGGESTED_PROMPTS ! 0)) 1000 1001,
      ClearChat,
      ChatSettled NetworkError 2000 2002] =
     (initial\<lparr>messages :=
        [\<lparr>msg_id = js ''2001'',
          content = Some (JStr (js
            ''Sorry, I encountered an error. Please make sure Ollama is running locally.'')),
          role = Assistant, timestamp = 2002\<rparr>]\<rparr>, [])"
    by (simp only: run_Cons run_Nil first)
       (simp add: settle_appends_assistant clearChat_def r2 i2 initial_def fallback_text_def)
  from g a b e1 e2 show ?thesis by (simp only: simp_thms)
qed

end
